theory Spec2Isabelle
  imports Complex_Main "HOL-Library.Word"
begin

section \<open>The Python binding of the FTRL model (\<^verbatim>\<open>src/c/models/py_ftrl.cc\<close>)\<close>

text \<open>
  The development embeds the class \<^verbatim>\<open>py::Ftrl\<close>: its constructor, its property
  getters and setters, \<^verbatim>\<open>fit\<close>, \<^verbatim>\<open>predict\<close>, \<^verbatim>\<open>reset\<close> and the two
  pickling methods. Every \<^verbatim>\<open>throw\<close> of the source is a branch that returns \<open>Inl\<close>;
  every method that changes the object returns the object it leaves behind, also
  when it throws, so that a change made before a \<^verbatim>\<open>throw\<close> stays visible.

  Three collaborators of the class are not part of the source tree at hand: the
  columnar frames of the host engine, the argument conversions of the Python
  binding layer (\<^verbatim>\<open>python/obj.h\<close>, \<^verbatim>\<open>models/py_validator.h\<close>) and the learning
  engine \<^verbatim>\<open>dt::Ftrl\<close> (\<^verbatim>\<open>models/ftrl.h\<close>). They are modelled below from what the
  specification says about them, each under a comment that says so. What the
  specification does not fix is a parameter of the methods that depend on it:
  the two engine entry points that do the numerical work, \<^verbatim>\<open>dispatch_fit\<close> and
  \<^verbatim>\<open>predict\<close>, the default hyperparameters, what a tuple read past the end
  yields, and what the negativity test of a column answers when it reads the
  column at another width than the one it is stored in.
\<close>

subsection \<open>Frames\<close>

text \<open>
  Modelled from the spec: the host engine's frame (\<^verbatim>\<open>DataTable\<close>, \<^verbatim>\<open>Column\<close>,
  \<^verbatim>\<open>SType\<close>) is outside the source tree. Section 6 of the specification gives what
  the binding reads of it: a row count, a column count and a primitive type tag
  per column. A column carries its type tag and its values; floating values are
  reals here, so neither rounding nor NaN is represented.
\<close>

datatype SType = BOOL | INT32 | INT64 | FLOAT32 | FLOAT64 | STR32

record Column =
  stype :: SType
  cdata :: "real list"

record DataTable =
  nrows :: nat
  columns :: "Column list"

definition ncols :: "DataTable \<Rightarrow> nat" where
  "ncols dt = length (columns dt)"

subsection \<open>Python objects, exceptions and argument conversions\<close>

text \<open>
  Modelled from the spec: the object wrappers of the binding layer
  (\<^verbatim>\<open>python/obj.h\<close>) are outside the source tree. The values are the ones the
  methods receive and return: \<^verbatim>\<open>None\<close>, booleans, integers (unbounded, as in
  Python), floats, strings, lists, tuples, named tuples (field names with their
  values, in order) and frames. A \<^verbatim>\<open>DataTable*\<close> is a pointer and may be null: it
  is a \<open>DataTable option\<close>, and a Python \<^verbatim>\<open>Frame\<close> object wraps one.
\<close>

datatype pyobj =
    PyNone
  | PyBool bool
  | PyInt int
  | PyFloat real
  | PyStr string
  | PyList "pyobj list"
  | PyTuple "pyobj list"
  | PyNamedTuple "(string \<times> pyobj) list"
  | PyFrame "DataTable option"

text \<open>
  The source builds its messages by streaming text, numbers and type tags into
  the exception; a message is the list of the streamed pieces.
\<close>

datatype msg_part = Str string | Num nat | Ty SType

text \<open>
  \<open>TypeError\<close> and \<open>ValueError\<close> are the exceptions \<^verbatim>\<open>py_ftrl.cc\<close> throws itself.
  The other constructors stand for what the absent layers raise: a failed
  conversion (with the name of the conversion), a missing attribute, the two
  verdicts of \<^verbatim>\<open>py::Validator\<close>, a read past the end of a tuple that faults, and a
  call through a null pointer.
\<close>

datatype exn =
    TypeError "msg_part list"
  | ValueError "msg_part list"
  | ConversionFailed string pyobj
  | AttributeMissing string
  | NotPositive pyobj
  | IsNegative pyobj
  | OutOfRange nat
  | NullDereference

text \<open>
  Modelled from the spec: the conversions of \<^verbatim>\<open>python/obj.h\<close> are outside the
  source tree. Each accepts the Python values of its target type and raises on
  anything else; \<^verbatim>\<open>to_size_t\<close> accepts the integers that fit an unsigned 64-bit
  count (the specification's "non-negative count").
\<close>

definition is_none :: "pyobj \<Rightarrow> bool" where
  "is_none v = (v = PyNone)"

definition is_none_or_undefined :: "pyobj option \<Rightarrow> bool" where
  "is_none_or_undefined a = (a = None \<or> a = Some PyNone)"

fun is_frame :: "pyobj \<Rightarrow> bool" where
  "is_frame (PyFrame _) = True"
| "is_frame _ = False"

fun to_double :: "pyobj \<Rightarrow> exn + real" where
  "to_double (PyFloat x) = Inr x"
| "to_double (PyInt i) = Inr (real_of_int i)"
| "to_double v = Inl (ConversionFailed ''to_double'' v)"

fun to_size_t :: "pyobj \<Rightarrow> exn + 64 word" where
  "to_size_t (PyInt i) =
     (if 0 \<le> i \<and> i < 2 ^ 64 then Inr (word_of_int i)
      else Inl (ConversionFailed ''to_size_t'' (PyInt i)))"
| "to_size_t v = Inl (ConversionFailed ''to_size_t'' v)"

fun to_int32 :: "pyobj \<Rightarrow> exn + int" where
  "to_int32 (PyInt i) =
     (if - (2 ^ 31) \<le> i \<and> i < 2 ^ 31 then Inr i
      else Inl (ConversionFailed ''to_int32'' (PyInt i)))"
| "to_int32 v = Inl (ConversionFailed ''to_int32'' v)"

fun to_bool_strict :: "pyobj \<Rightarrow> exn + bool" where
  "to_bool_strict (PyBool b) = Inr b"
| "to_bool_strict v = Inl (ConversionFailed ''to_bool_strict'' v)"

fun to_pylist :: "pyobj \<Rightarrow> exn + pyobj list" where
  "to_pylist (PyList xs) = Inr xs"
| "to_pylist v = Inl (ConversionFailed ''to_pylist'' v)"

text \<open>A named tuple is a tuple: its items are the values of its fields, in order.\<close>

fun to_otuple :: "pyobj \<Rightarrow> exn + pyobj list" where
  "to_otuple (PyTuple xs) = Inr xs"
| "to_otuple (PyNamedTuple fs) = Inr (map snd fs)"
| "to_otuple v = Inl (ConversionFailed ''to_otuple'' v)"

fun to_frame :: "pyobj \<Rightarrow> exn + DataTable option" where
  "to_frame PyNone = Inr None"
| "to_frame (PyFrame dt) = Inr dt"
| "to_frame v = Inl (ConversionFailed ''to_frame'' v)"

fun get_attr :: "pyobj \<Rightarrow> string \<Rightarrow> exn + pyobj" where
  "get_attr (PyNamedTuple fs) name =
     (case map_of fs name of
        Some v \<Rightarrow> Inr v
      | None \<Rightarrow> Inl (AttributeMissing name))"
| "get_attr v name = Inl (AttributeMissing name)"

text \<open>
  Modelled from the spec: \<^verbatim>\<open>py::otuple::operator[]\<close> is outside the source tree,
  and the specification is silent on it. Inside the tuple it yields the item. What
  a read past the end yields is left open: it is the parameter \<open>oob\<close>, \<open>None\<close> when
  the read faults and \<open>Some v\<close> when it hands back some object \<open>v\<close>, and every
  statement about such a read is made for all values of \<open>oob\<close>.
\<close>

definition tuple_at :: "pyobj option \<Rightarrow> pyobj list \<Rightarrow> nat \<Rightarrow> exn + pyobj" where
  "tuple_at oob xs i =
     (if i < length xs then Inr (xs ! i)
      else case oob of None \<Rightarrow> Inl (OutOfRange i) | Some v \<Rightarrow> Inr v)"

text \<open>
  Modelled from the spec: \<^verbatim>\<open>PKArgs\<close> is outside the source tree. The arguments of
  a call are indexed by position; one that was not passed is undefined, which is
  \<open>None\<close> here (\<^verbatim>\<open>is_undefined\<close>), while Python's \<^verbatim>\<open>None\<close> passed explicitly is
  \<open>Some PyNone\<close>.
\<close>

type_synonym PKArgs = "pyobj option list"

definition arg :: "PKArgs \<Rightarrow> nat \<Rightarrow> pyobj option" where
  "arg args i = (if i < length args then args ! i else None)"

text \<open>
  Modelled from the spec: \<^verbatim>\<open>py::Validator\<close> (\<^verbatim>\<open>models/py_validator.h\<close>) is outside
  the source tree. Section 4.1 of the specification: a value that must be
  positive is rejected when it is \<open>\<le> 0\<close>, a value that must not be negative when
  it is \<open>< 0\<close>; section 4.6: a column is refused when it contains a negative value.
  The checks are written once for each instantiation the source uses.
\<close>

definition check_positive_double :: "real \<Rightarrow> pyobj \<Rightarrow> exn + unit" where
  "check_positive_double x v = (if 0 < x then Inr () else Inl (NotPositive v))"

definition check_not_negative_double :: "real \<Rightarrow> pyobj \<Rightarrow> exn + unit" where
  "check_not_negative_double x v = (if 0 \<le> x then Inr () else Inl (IsNegative v))"

definition check_positive_uint64 :: "64 word \<Rightarrow> pyobj \<Rightarrow> exn + unit" where
  "check_positive_uint64 x v = (if 0 < x then Inr () else Inl (NotPositive v))"

text \<open>
  Modelled from the spec: \<^verbatim>\<open>py::Validator::has_negatives<T>\<close> is outside the source
  tree. \<open>T\<close> is the element type the instantiation reads the column's buffer as
  (\<open>FLOAT32\<close> for \<^verbatim>\<open>float\<close>, \<open>FLOAT64\<close> for \<^verbatim>\<open>double\<close>). When \<open>T\<close> is the type
  the column is stored in, the helper sees the column's values, and section 4.6
  of the specification says what it answers: whether the column contains a
  negative value. When \<open>T\<close> is another type, the helper reads the bytes of the
  buffer at a width they were not written in; what it sees then depends on the
  byte layout, on which neither the source at hand nor the specification says
  anything. That answer is the parameter \<open>misread\<close>, and every statement about
  such a read is made for all \<open>misread\<close> or names the answer it assumes.
\<close>

definition has_negatives :: "(SType \<Rightarrow> Column \<Rightarrow> bool) \<Rightarrow> SType \<Rightarrow> Column \<Rightarrow> bool" where
  "has_negatives misread T col =
     (if stype col = T then (\<exists>x \<in> set (cdata col). x < 0) else misread T col)"

text \<open>Sequencing of steps that may throw: the first exception ends the sequence.\<close>

definition bindE :: "exn + 'a \<Rightarrow> ('a \<Rightarrow> exn + 'b) \<Rightarrow> exn + 'b" where
  "bindE c k = (case c of Inl e \<Rightarrow> Inl e | Inr x \<Rightarrow> k x)"

subsection \<open>The learning engine \<^verbatim>\<open>dt::Ftrl\<close>\<close>

text \<open>
  Modelled from the spec: \<^verbatim>\<open>dt::FtrlParams\<close> and \<^verbatim>\<open>dt::Ftrl<T>\<close> are outside the
  source tree. Section 3 of the specification lists the eight hyperparameters
  and the lifetime of a model: it starts untrained with no arrays allocated,
  holds a weight table and a feature-importance table once trained, records the
  column count and the column-name hashes of the training frame, and goes back
  to untrained on reset without touching the hyperparameters. The engine is
  instantiated for \<^verbatim>\<open>float\<close> or for \<^verbatim>\<open>double\<close>; \<open>elem_double\<close> records which.
\<close>

record FtrlParams =
  alpha :: real
  beta :: real
  lambda1 :: real
  lambda2 :: real
  nbins :: "64 word"
  nepochs :: "64 word"
  interactions :: bool
  double_precision :: bool

record dt_Ftrl =
  params :: FtrlParams
  elem_double :: bool
  model_ptr :: "DataTable option"
  fi_ptr :: "DataTable option"
  X_ncols :: nat
  hashes :: "64 word list"

definition new_Ftrl :: "bool \<Rightarrow> FtrlParams \<Rightarrow> dt_Ftrl" where
  "new_Ftrl dbl p =
     \<lparr>params = p, elem_double = dbl, model_ptr = None, fi_ptr = None,
      X_ncols = 0, hashes = []\<rparr>"

definition dt_is_trained :: "dt_Ftrl \<Rightarrow> bool" where
  "dt_is_trained e = (model_ptr e \<noteq> None)"

definition dt_reset :: "dt_Ftrl \<Rightarrow> dt_Ftrl" where
  "dt_reset e = e\<lparr>model_ptr := None, fi_ptr := None\<rparr>"

definition dt_get_model :: "dt_Ftrl \<Rightarrow> DataTable option" where
  "dt_get_model e = model_ptr e"

definition dt_set_model :: "DataTable \<Rightarrow> dt_Ftrl \<Rightarrow> dt_Ftrl" where
  "dt_set_model t e = e\<lparr>model_ptr := Some t\<rparr>"

definition dt_get_fi :: "bool \<Rightarrow> dt_Ftrl \<Rightarrow> DataTable option" where
  "dt_get_fi normalise e = fi_ptr e"

definition dt_set_fi :: "DataTable \<Rightarrow> dt_Ftrl \<Rightarrow> dt_Ftrl" where
  "dt_set_fi t e = e\<lparr>fi_ptr := Some t\<rparr>"

definition dt_get_dt_X_ncols :: "dt_Ftrl \<Rightarrow> nat" where
  "dt_get_dt_X_ncols e = X_ncols e"

definition dt_get_colnames_hashes :: "dt_Ftrl \<Rightarrow> 64 word list" where
  "dt_get_colnames_hashes e = hashes e"

definition dt_get_alpha :: "dt_Ftrl \<Rightarrow> real" where
  "dt_get_alpha e = alpha (params e)"

definition dt_get_beta :: "dt_Ftrl \<Rightarrow> real" where
  "dt_get_beta e = beta (params e)"

definition dt_get_lambda1 :: "dt_Ftrl \<Rightarrow> real" where
  "dt_get_lambda1 e = lambda1 (params e)"

definition dt_get_lambda2 :: "dt_Ftrl \<Rightarrow> real" where
  "dt_get_lambda2 e = lambda2 (params e)"

definition dt_get_nbins :: "dt_Ftrl \<Rightarrow> 64 word" where
  "dt_get_nbins e = nbins (params e)"

definition dt_get_nepochs :: "dt_Ftrl \<Rightarrow> 64 word" where
  "dt_get_nepochs e = nepochs (params e)"

definition dt_get_interactions :: "dt_Ftrl \<Rightarrow> bool" where
  "dt_get_interactions e = interactions (params e)"

definition dt_get_double_precision :: "dt_Ftrl \<Rightarrow> bool" where
  "dt_get_double_precision e = double_precision (params e)"

definition dt_set_alpha :: "real \<Rightarrow> dt_Ftrl \<Rightarrow> dt_Ftrl" where
  "dt_set_alpha x e = e\<lparr>params := (params e)\<lparr>alpha := x\<rparr>\<rparr>"

definition dt_set_beta :: "real \<Rightarrow> dt_Ftrl \<Rightarrow> dt_Ftrl" where
  "dt_set_beta x e = e\<lparr>params := (params e)\<lparr>beta := x\<rparr>\<rparr>"

definition dt_set_lambda1 :: "real \<Rightarrow> dt_Ftrl \<Rightarrow> dt_Ftrl" where
  "dt_set_lambda1 x e = e\<lparr>params := (params e)\<lparr>lambda1 := x\<rparr>\<rparr>"

definition dt_set_lambda2 :: "real \<Rightarrow> dt_Ftrl \<Rightarrow> dt_Ftrl" where
  "dt_set_lambda2 x e = e\<lparr>params := (params e)\<lparr>lambda2 := x\<rparr>\<rparr>"

definition dt_set_nbins :: "64 word \<Rightarrow> dt_Ftrl \<Rightarrow> dt_Ftrl" where
  "dt_set_nbins x e = e\<lparr>params := (params e)\<lparr>nbins := x\<rparr>\<rparr>"

definition dt_set_nepochs :: "64 word \<Rightarrow> dt_Ftrl \<Rightarrow> dt_Ftrl" where
  "dt_set_nepochs x e = e\<lparr>params := (params e)\<lparr>nepochs := x\<rparr>\<rparr>"

definition dt_set_interactions :: "bool \<Rightarrow> dt_Ftrl \<Rightarrow> dt_Ftrl" where
  "dt_set_interactions x e = e\<lparr>params := (params e)\<lparr>interactions := x\<rparr>\<rparr>"

subsection \<open>The object \<^verbatim>\<open>py::Ftrl\<close>\<close>

text \<open>
  Modelled from the spec: the class declaration (\<^verbatim>\<open>models/py_ftrl.h\<close>) is outside
  the source tree; the fields are the ones the methods use. \<open>RegType\<close> is the
  tagged variant of section 3, numbered in the order the specification lists it;
  \<open>OTHER\<close> holds an integer that names no tag. \<open>dtft\<close> is the pointer to the
  engine and \<open>labels\<close> the owned reference to a Python list; both are \<open>None\<close> when
  null.
\<close>

datatype RegType = NONE | BINOMIAL | MULTINOMIAL | OTHER int

fun int_of_RegType :: "RegType \<Rightarrow> int" where
  "int_of_RegType NONE = 0"
| "int_of_RegType BINOMIAL = 1"
| "int_of_RegType MULTINOMIAL = 2"
| "int_of_RegType (OTHER i) = i"

definition RegType_of_int :: "int \<Rightarrow> RegType" where
  "RegType_of_int i =
     (if i = 0 then NONE else if i = 1 then BINOMIAL
      else if i = 2 then MULTINOMIAL else OTHER i)"

record py_Ftrl =
  dtft :: "dt_Ftrl option"
  labels :: "pyobj list option"
  reg_type :: RegType
  feature_names :: "string list option"

text \<open>
  A method returns what it returns or throws, together with the object it leaves
  behind. The combinators below are the plumbing of that: \<open>throw\<close> and \<open>ret\<close> end a
  method, \<open>attempt\<close> runs a conversion or a check that may throw, \<open>and_then\<close> runs
  one call after another, \<open>with_engine\<close> follows \<open>dtft\<close> to read the engine and
  \<open>upd_engine\<close> follows it to call a method that changes the engine.
\<close>

type_synonym 'a result = "(exn + 'a) \<times> py_Ftrl"

definition throw :: "exn \<Rightarrow> py_Ftrl \<Rightarrow> 'a result" where
  "throw e self = (Inl e, self)"

definition ret :: "'a \<Rightarrow> py_Ftrl \<Rightarrow> 'a result" where
  "ret x self = (Inr x, self)"

definition attempt :: "exn + 'a \<Rightarrow> ('a \<Rightarrow> py_Ftrl \<Rightarrow> 'b result) \<Rightarrow> py_Ftrl \<Rightarrow> 'b result" where
  "attempt c k self = (case c of Inl e \<Rightarrow> (Inl e, self) | Inr x \<Rightarrow> k x self)"

definition and_then :: "(py_Ftrl \<Rightarrow> unit result) \<Rightarrow> (py_Ftrl \<Rightarrow> 'a result) \<Rightarrow> py_Ftrl \<Rightarrow> 'a result" where
  "and_then f g self =
     (case f self of
        (Inl e, self') \<Rightarrow> (Inl e, self')
      | (Inr _, self') \<Rightarrow> g self')"

definition with_engine :: "(dt_Ftrl \<Rightarrow> py_Ftrl \<Rightarrow> 'a result) \<Rightarrow> py_Ftrl \<Rightarrow> 'a result" where
  "with_engine k self =
     (case dtft self of
        None \<Rightarrow> (Inl NullDereference, self)
      | Some e \<Rightarrow> k e self)"

definition upd_engine :: "(dt_Ftrl \<Rightarrow> dt_Ftrl) \<Rightarrow> py_Ftrl \<Rightarrow> unit result" where
  "upd_engine f self =
     (case dtft self of
        None \<Rightarrow> (Inl NullDereference, self)
      | Some e \<Rightarrow> (Inr (), self\<lparr>dtft := Some (f e)\<rparr>))"

text \<open>The same for a \<^verbatim>\<open>const\<close> method, which only reads the engine.\<close>

definition ask_engine :: "(dt_Ftrl \<Rightarrow> 'a) \<Rightarrow> py_Ftrl \<Rightarrow> exn + 'a" where
  "ask_engine f self =
     (case dtft self of
        None \<Rightarrow> Inl NullDereference
      | Some e \<Rightarrow> Inr (f e))"

subsubsection \<open>\<^verbatim>\<open>.labels\<close>\<close>

definition get_labels :: "py_Ftrl \<Rightarrow> pyobj list option" where
  "get_labels self = labels self"

definition set_labels :: "pyobj \<Rightarrow> py_Ftrl \<Rightarrow> unit result" where
  "set_labels py_labels =
     attempt (to_pylist py_labels) (\<lambda>labels_in self.
       let nlabels = length labels_in in
       if nlabels = 1 then
         throw (ValueError [Str ''List of labels can not have one element'']) self
       else
         let labels_in' = (if nlabels = 0 then labels_in @ [PyStr ''target''] else labels_in)
         in ret () (self\<lparr>labels := Some labels_in'\<rparr>))"

subsubsection \<open>\<^verbatim>\<open>.model\<close>\<close>

definition get_model :: "py_Ftrl \<Rightarrow> exn + pyobj" where
  "get_model = ask_engine (\<lambda>e.
     if dt_is_trained e then PyFrame (dt_get_model e) else PyNone)"

text \<open>
  The loop of \<^verbatim>\<open>set_model\<close> over the columns \<open>i = 0, ..., ncols - 1\<close>. The call
  \<^verbatim>\<open>dtft->set_model(dt_model)\<close> stands inside the loop body, after the two checks
  of column \<open>i\<close>, so it runs once for every column that passes.
\<close>

fun set_model_loop ::
  "DataTable \<Rightarrow> SType \<Rightarrow> (Column \<Rightarrow> bool) \<Rightarrow> nat \<Rightarrow> Column list \<Rightarrow> py_Ftrl \<Rightarrow> unit result" where
  "set_model_loop dt_model st has_neg i [] self = (Inr (), self)"
| "set_model_loop dt_model st has_neg i (col # cols) self =
     (let c_stype = stype col in
      if stype col \<noteq> st then
        (Inl (ValueError [Str ''Column '', Num i, Str '' in the model frame should '',
                          Str ''have a type of '', Ty st, Str '', whereas your '',
                          Str ''frame has the following column type: '', Ty c_stype]), self)
      else if i mod 2 \<noteq> 0 \<and> has_neg col then
        (Inl (ValueError [Str ''Column '', Num i, Str '' cannot have negative values'']), self)
      else
        (case upd_engine (dt_set_model dt_model) self of
           (Inl e, self') \<Rightarrow> (Inl e, self')
         | (Inr _, self') \<Rightarrow> set_model_loop dt_model st has_neg (Suc i) cols self'))"

definition plural :: "nat \<Rightarrow> string" where
  "plural n = (if n = 1 then '''' else ''s'')"

text \<open>
  The expected column type is \<open>FLOAT32\<close> when \<^verbatim>\<open>double_precision\<close> is set and
  \<open>FLOAT64\<close> otherwise, and the negativity test is \<^verbatim>\<open>has_negatives<double>\<close> when
  \<^verbatim>\<open>double_precision\<close> is set and \<^verbatim>\<open>has_negatives<float>\<close> otherwise, as the source
  has them.
\<close>

definition set_model :: "(SType \<Rightarrow> Column \<Rightarrow> bool) \<Rightarrow> pyobj \<Rightarrow> py_Ftrl \<Rightarrow> unit result" where
  "set_model misread model self =
     (if is_none model then
        upd_engine dt_reset (self\<lparr>reg_type := NONE\<rparr>)
      else
        attempt (to_frame model) (\<lambda>dt_model_ptr self.
          case dt_model_ptr of
            None \<Rightarrow> throw NullDereference self
          | Some dt_model \<Rightarrow>
              with_engine (\<lambda>e self.
                if nrows dt_model \<noteq> unat (dt_get_nbins e) \<or> ncols dt_model mod 2 \<noteq> 0 then
                  throw (ValueError
                    [Str ''Model frame must have '', Num (unat (dt_get_nbins e)),
                     Str '' rows, and an even number of columns, '',
                     Str ''whereas your frame has '',
                     Num (nrows dt_model), Str '' row'', Str (plural (nrows dt_model)),
                     Str '' and '',
                     Num (ncols dt_model), Str '' column'', Str (plural (ncols dt_model))]) self
                else
                  let double_precision = dt_get_double_precision e;
                      st = (if double_precision then FLOAT32 else FLOAT64);
                      has_neg = (if double_precision then has_negatives misread FLOAT64
                                 else has_negatives misread FLOAT32)
                  in set_model_loop dt_model st has_neg 0 (columns dt_model) self) self) self)"

subsubsection \<open>\<^verbatim>\<open>.fi\<close> and \<^verbatim>\<open>.colname_hashes\<close>\<close>

definition get_fi :: "py_Ftrl \<Rightarrow> exn + pyobj" where
  "get_fi = ask_engine (\<lambda>e.
     if dt_is_trained e then PyFrame (dt_get_fi True e) else PyNone)"

definition get_fi_tuple :: "py_Ftrl \<Rightarrow> exn + pyobj" where
  "get_fi_tuple = ask_engine (\<lambda>e.
     if dt_is_trained e then PyTuple [PyFrame (dt_get_fi False e)] else PyNone)"

text \<open>
  The tuple has \<open>ncols\<close> slots and slot \<open>i\<close> receives \<^verbatim>\<open>colname_hashes[i]\<close>; the
  vector is read without a bounds check.
\<close>

definition get_colname_hashes :: "py_Ftrl \<Rightarrow> exn + pyobj" where
  "get_colname_hashes = ask_engine (\<lambda>e.
     if dt_is_trained e then
       let n = dt_get_dt_X_ncols e;
           colname_hashes = dt_get_colnames_hashes e
       in PyTuple (map (\<lambda>i. PyInt (uint (colname_hashes ! i))) [0..<n])
     else PyNone)"

subsubsection \<open>The hyperparameters\<close>

definition get_alpha :: "py_Ftrl \<Rightarrow> exn + pyobj" where
  "get_alpha = ask_engine (\<lambda>e. PyFloat (dt_get_alpha e))"

definition set_alpha :: "pyobj \<Rightarrow> py_Ftrl \<Rightarrow> unit result" where
  "set_alpha py_alpha =
     attempt (to_double py_alpha) (\<lambda>alpha.
     attempt (check_positive_double alpha py_alpha) (\<lambda>_.
     upd_engine (dt_set_alpha alpha)))"

definition get_beta :: "py_Ftrl \<Rightarrow> exn + pyobj" where
  "get_beta = ask_engine (\<lambda>e. PyFloat (dt_get_beta e))"

definition set_beta :: "pyobj \<Rightarrow> py_Ftrl \<Rightarrow> unit result" where
  "set_beta py_beta =
     attempt (to_double py_beta) (\<lambda>beta.
     attempt (check_not_negative_double beta py_beta) (\<lambda>_.
     upd_engine (dt_set_beta beta)))"

definition get_lambda1 :: "py_Ftrl \<Rightarrow> exn + pyobj" where
  "get_lambda1 = ask_engine (\<lambda>e. PyFloat (dt_get_lambda1 e))"

definition set_lambda1 :: "pyobj \<Rightarrow> py_Ftrl \<Rightarrow> unit result" where
  "set_lambda1 py_lambda1 =
     attempt (to_double py_lambda1) (\<lambda>lambda1.
     attempt (check_not_negative_double lambda1 py_lambda1) (\<lambda>_.
     upd_engine (dt_set_lambda1 lambda1)))"

definition get_lambda2 :: "py_Ftrl \<Rightarrow> exn + pyobj" where
  "get_lambda2 = ask_engine (\<lambda>e. PyFloat (dt_get_lambda2 e))"

definition set_lambda2 :: "pyobj \<Rightarrow> py_Ftrl \<Rightarrow> unit result" where
  "set_lambda2 py_lambda2 =
     attempt (to_double py_lambda2) (\<lambda>lambda2.
     attempt (check_not_negative_double lambda2 py_lambda2) (\<lambda>_.
     upd_engine (dt_set_lambda2 lambda2)))"

definition get_nbins :: "py_Ftrl \<Rightarrow> exn + pyobj" where
  "get_nbins = ask_engine (\<lambda>e. PyInt (uint (dt_get_nbins e)))"

definition set_nbins :: "pyobj \<Rightarrow> py_Ftrl \<Rightarrow> unit result" where
  "set_nbins py_nbins =
     with_engine (\<lambda>e.
       if dt_is_trained e then
         throw (ValueError [Str ''Cannot set `nbins` for a trained model, '',
                            Str ''reset this model or create a new one''])
       else
         attempt (to_size_t py_nbins) (\<lambda>nbins.
         attempt (check_positive_uint64 nbins py_nbins) (\<lambda>_.
         upd_engine (dt_set_nbins nbins))))"

definition get_nepochs :: "py_Ftrl \<Rightarrow> exn + pyobj" where
  "get_nepochs = ask_engine (\<lambda>e. PyInt (uint (dt_get_nepochs e)))"

definition set_nepochs :: "pyobj \<Rightarrow> py_Ftrl \<Rightarrow> unit result" where
  "set_nepochs py_nepochs =
     attempt (to_size_t py_nepochs) (\<lambda>nepochs.
     upd_engine (dt_set_nepochs nepochs))"

definition get_interactions :: "py_Ftrl \<Rightarrow> exn + pyobj" where
  "get_interactions = ask_engine (\<lambda>e. PyBool (dt_get_interactions e))"

definition set_interactions :: "pyobj \<Rightarrow> py_Ftrl \<Rightarrow> unit result" where
  "set_interactions py_interactions =
     attempt (to_bool_strict py_interactions) (\<lambda>interactions.
     upd_engine (dt_set_interactions interactions))"

definition get_double_precision :: "py_Ftrl \<Rightarrow> exn + pyobj" where
  "get_double_precision = ask_engine (\<lambda>e. PyBool (dt_get_double_precision e))"

definition set_double_precision :: "pyobj \<Rightarrow> py_Ftrl \<Rightarrow> unit result" where
  "set_double_precision py_double_precision =
     attempt (to_bool_strict py_double_precision) (\<lambda>double_precision.
     upd_engine (dt_set_interactions double_precision))"

subsubsection \<open>\<^verbatim>\<open>.params\<close>\<close>

definition get_params_namedtuple :: "py_Ftrl \<Rightarrow> exn + pyobj" where
  "get_params_namedtuple self =
     bindE (get_alpha self) (\<lambda>p0.
     bindE (get_beta self) (\<lambda>p1.
     bindE (get_lambda1 self) (\<lambda>p2.
     bindE (get_lambda2 self) (\<lambda>p3.
     bindE (get_nbins self) (\<lambda>p4.
     bindE (get_nepochs self) (\<lambda>p5.
     bindE (get_interactions self) (\<lambda>p6.
     bindE (get_double_precision self) (\<lambda>p7.
     Inr (PyNamedTuple
       [(''alpha'', p0), (''beta'', p1), (''lambda1'', p2), (''lambda2'', p3),
        (''nbins'', p4), (''nepochs'', p5), (''interactions'', p6),
        (''double_precision'', p7)])))))))))"

definition set_params_namedtuple :: "pyobj \<Rightarrow> py_Ftrl \<Rightarrow> unit result" where
  "set_params_namedtuple ps =
     and_then (attempt (get_attr ps ''alpha'') set_alpha)
    (and_then (attempt (get_attr ps ''beta'') set_beta)
    (and_then (attempt (get_attr ps ''lambda1'') set_lambda1)
    (and_then (attempt (get_attr ps ''lambda2'') set_lambda2)
    (and_then (attempt (get_attr ps ''nbins'') set_nbins)
    (and_then (attempt (get_attr ps ''nepochs'') set_nepochs)
    (and_then (attempt (get_attr ps ''interactions'') set_interactions)
              (attempt (get_attr ps ''double_precision'') set_double_precision)))))))"

text \<open>\<^verbatim>\<open>py::otuple params(7)\<close>: the tuple has seven slots, \<open>0\<close> to \<open>6\<close>.\<close>

definition get_params_tuple :: "py_Ftrl \<Rightarrow> exn + pyobj" where
  "get_params_tuple self =
     bindE (get_alpha self) (\<lambda>p0.
     bindE (get_beta self) (\<lambda>p1.
     bindE (get_lambda1 self) (\<lambda>p2.
     bindE (get_lambda2 self) (\<lambda>p3.
     bindE (get_nbins self) (\<lambda>p4.
     bindE (get_nepochs self) (\<lambda>p5.
     bindE (get_interactions self) (\<lambda>p6.
     Inr (PyTuple [p0, p1, p2, p3, p4, p5, p6]))))))))"

definition set_params_tuple :: "pyobj option \<Rightarrow> pyobj \<Rightarrow> py_Ftrl \<Rightarrow> unit result" where
  "set_params_tuple oob ps =
     attempt (to_otuple ps) (\<lambda>params_tuple.
       let n_params = length params_tuple in
       if n_params \<noteq> 8 then
         throw (ValueError [Str ''Tuple of FTRL parameters should have 8 elements, '',
                            Str ''got: '', Num n_params])
       else
         and_then (attempt (tuple_at oob params_tuple 0) set_alpha)
        (and_then (attempt (tuple_at oob params_tuple 1) set_beta)
        (and_then (attempt (tuple_at oob params_tuple 2) set_lambda1)
        (and_then (attempt (tuple_at oob params_tuple 3) set_lambda2)
        (and_then (attempt (tuple_at oob params_tuple 4) set_nbins)
        (and_then (attempt (tuple_at oob params_tuple 5) set_nepochs)
        (and_then (attempt (tuple_at oob params_tuple 6) set_interactions)
                  (attempt (tuple_at oob params_tuple 7) set_double_precision))))))))"

subsubsection \<open>\<^verbatim>\<open>__init__\<close>\<close>

text \<open>
  \<^verbatim>\<open>dt::FtrlParams ftrl_params;\<close> is default-constructed; the defaults live in the
  engine's header, so they are the parameter \<open>dflt\<close>. The two branches of the
  constructor that fill \<open>ftrl_params\<close> are written as functions of their own.
  With the \<^verbatim>\<open>params\<close> bundle all eight attributes are fetched, then all are
  converted, then five are checked; \<^verbatim>\<open>nbins\<close> is converted to \<^verbatim>\<open>double\<close> for its
  check there.
\<close>

definition init_from_params :: "FtrlParams \<Rightarrow> pyobj \<Rightarrow> exn + FtrlParams" where
  "init_from_params dflt a0 =
     bindE (to_otuple a0) (\<lambda>_.
     bindE (get_attr a0 ''alpha'') (\<lambda>py_alpha.
     bindE (get_attr a0 ''beta'') (\<lambda>py_beta.
     bindE (get_attr a0 ''lambda1'') (\<lambda>py_lambda1.
     bindE (get_attr a0 ''lambda2'') (\<lambda>py_lambda2.
     bindE (get_attr a0 ''nbins'') (\<lambda>py_nbins.
     bindE (get_attr a0 ''nepochs'') (\<lambda>py_nepochs.
     bindE (get_attr a0 ''interactions'') (\<lambda>py_interactions.
     bindE (get_attr a0 ''double_precision'') (\<lambda>py_double_precision.
     bindE (to_double py_alpha) (\<lambda>v_alpha.
     bindE (to_double py_beta) (\<lambda>v_beta.
     bindE (to_double py_lambda1) (\<lambda>v_lambda1.
     bindE (to_double py_lambda2) (\<lambda>v_lambda2.
     bindE (to_size_t py_nbins) (\<lambda>v_nbins.
     bindE (to_size_t py_nepochs) (\<lambda>v_nepochs.
     bindE (to_bool_strict py_interactions) (\<lambda>v_interactions.
     bindE (to_bool_strict py_double_precision) (\<lambda>v_double_precision.
     bindE (check_positive_double v_alpha py_alpha) (\<lambda>_.
     bindE (check_not_negative_double v_beta py_beta) (\<lambda>_.
     bindE (check_not_negative_double v_lambda1 py_lambda1) (\<lambda>_.
     bindE (check_not_negative_double v_lambda2 py_lambda2) (\<lambda>_.
     bindE (check_not_negative_double (real (unat v_nbins)) py_nbins) (\<lambda>_.
     Inr (dflt\<lparr>alpha := v_alpha, beta := v_beta, lambda1 := v_lambda1,
                lambda2 := v_lambda2, nbins := v_nbins, nepochs := v_nepochs,
                interactions := v_interactions,
                double_precision := v_double_precision\<rparr>)))))))))))))))))))))))"

text \<open>One step of the other branch: \<open>f\<close> runs on an argument that is defined.\<close>

definition if_defined :: "pyobj option \<Rightarrow> (pyobj \<Rightarrow> FtrlParams \<Rightarrow> exn + FtrlParams) \<Rightarrow> FtrlParams \<Rightarrow> exn + FtrlParams" where
  "if_defined a f p =
     (case a of
        Some v \<Rightarrow> (if \<not> is_none_or_undefined a then f v p else Inr p)
      | None \<Rightarrow> Inr p)"

definition init_from_individual :: "FtrlParams \<Rightarrow> PKArgs \<Rightarrow> exn + FtrlParams" where
  "init_from_individual dflt args =
     bindE (if_defined (arg args 2) (\<lambda>a p.
              bindE (to_double a) (\<lambda>v.
              bindE (check_positive_double v a) (\<lambda>_. Inr (p\<lparr>alpha := v\<rparr>)))) dflt) (\<lambda>p.
     bindE (if_defined (arg args 3) (\<lambda>a p.
              bindE (to_double a) (\<lambda>v.
              bindE (check_not_negative_double v a) (\<lambda>_. Inr (p\<lparr>beta := v\<rparr>)))) p) (\<lambda>p.
     bindE (if_defined (arg args 4) (\<lambda>a p.
              bindE (to_double a) (\<lambda>v.
              bindE (check_not_negative_double v a) (\<lambda>_. Inr (p\<lparr>lambda1 := v\<rparr>)))) p) (\<lambda>p.
     bindE (if_defined (arg args 5) (\<lambda>a p.
              bindE (to_double a) (\<lambda>v.
              bindE (check_not_negative_double v a) (\<lambda>_. Inr (p\<lparr>lambda2 := v\<rparr>)))) p) (\<lambda>p.
     bindE (if_defined (arg args 6) (\<lambda>a p.
              bindE (to_size_t a) (\<lambda>v.
              bindE (check_positive_uint64 v a) (\<lambda>_. Inr (p\<lparr>nbins := v\<rparr>)))) p) (\<lambda>p.
     bindE (if_defined (arg args 7) (\<lambda>a p.
              bindE (to_size_t a) (\<lambda>v. Inr (p\<lparr>nepochs := v\<rparr>))) p) (\<lambda>p.
     bindE (if_defined (arg args 8) (\<lambda>a p.
              bindE (to_bool_strict a) (\<lambda>v. Inr (p\<lparr>interactions := v\<rparr>))) p) (\<lambda>p.
     if_defined (arg args 9) (\<lambda>a p.
              bindE (to_bool_strict a) (\<lambda>v. Inr (p\<lparr>double_precision := v\<rparr>))) p)))))))"

definition m_init :: "FtrlParams \<Rightarrow> PKArgs \<Rightarrow> py_Ftrl \<Rightarrow> unit result" where
  "m_init dflt args self0 =
     (let self = self0\<lparr>dtft := None\<rparr>;
          defined_params = \<not> is_none_or_undefined (arg args 0);
          defined_labels = \<not> is_none_or_undefined (arg args 1);
          defined_alpha = \<not> is_none_or_undefined (arg args 2);
          defined_beta = \<not> is_none_or_undefined (arg args 3);
          defined_lambda1 = \<not> is_none_or_undefined (arg args 4);
          defined_lambda2 = \<not> is_none_or_undefined (arg args 5);
          defined_nbins = \<not> is_none_or_undefined (arg args 6);
          defined_nepochs = \<not> is_none_or_undefined (arg args 7);
          defined_interactions = \<not> is_none_or_undefined (arg args 8);
          defined_double_precision = \<not> is_none_or_undefined (arg args 9);
          parsed =
            (if defined_params then
               if defined_alpha \<or> defined_beta \<or> defined_lambda1 \<or> defined_lambda2 \<or>
                  defined_nbins \<or> defined_nepochs \<or> defined_interactions \<or>
                  defined_double_precision
               then Inl (TypeError
                 [Str ''You can either pass all the parameters with '',
                  Str ''`params` or any of the individual parameters with `alpha`, '',
                  Str ''`beta`, `lambda1`, `lambda2`, `nbins`, `nepochs`, '',
                  Str ''`interactions` or `double_precision` to Ftrl constructor, '',
                  Str ''but not both at the same time''])
               else (case arg args 0 of
                       Some a0 \<Rightarrow> init_from_params dflt a0
                     | None \<Rightarrow> Inr dflt)
             else init_from_individual dflt args)
      in attempt parsed (\<lambda>ftrl_params.
           and_then
             (if defined_labels then
                (case arg args 1 of
                   Some a1 \<Rightarrow> set_labels a1
                 | None \<Rightarrow> set_labels (PyList []))
              else set_labels (PyList []))
             (\<lambda>self.
                ret () (self\<lparr>dtft := Some (new_Ftrl (double_precision ftrl_params) ftrl_params),
                             reg_type := NONE\<rparr>))) self)"

subsubsection \<open>\<^verbatim>\<open>fit\<close>, \<^verbatim>\<open>predict\<close>, \<^verbatim>\<open>reset\<close>\<close>

text \<open>
  \<^verbatim>\<open>dtft->dispatch_fit\<close> and \<^verbatim>\<open>dtft->predict\<close> are the engine's training and
  scoring; they are the parameters \<open>dispatch_fit\<close> and \<open>dt_predict\<close>, which may
  throw and may change the engine. The test \<^verbatim>\<open>args[i].is_undefined()\<close> is the case
  \<open>None\<close> of \<open>arg args i\<close>; \<^verbatim>\<open>to_frame\<close> yields a null pointer for Python's
  \<^verbatim>\<open>None\<close>, on which both methods return at once.
\<close>

type_synonym fit_fn = "DataTable \<Rightarrow> DataTable \<Rightarrow> dt_Ftrl \<Rightarrow> (exn + unit) \<times> dt_Ftrl"
type_synonym predict_fn = "DataTable \<Rightarrow> dt_Ftrl \<Rightarrow> (exn + DataTable) \<times> dt_Ftrl"

definition fit :: "fit_fn \<Rightarrow> PKArgs \<Rightarrow> py_Ftrl \<Rightarrow> unit result" where
  "fit dispatch_fit args self =
     (case arg args 0 of
        None \<Rightarrow> throw (ValueError [Str ''Training frame parameter is missing'']) self
      | Some a0 \<Rightarrow>
     (case arg args 1 of
        None \<Rightarrow> throw (ValueError [Str ''Target frame parameter is missing'']) self
      | Some a1 \<Rightarrow>
     attempt (to_frame a0) (\<lambda>dt_X_ptr.
     attempt (to_frame a1) (\<lambda>dt_y_ptr self.
       case (dt_X_ptr, dt_y_ptr) of
         (Some dt_X, Some dt_y) \<Rightarrow>
           if ncols dt_X = 0 then
             throw (ValueError [Str ''Training frame must have at least one column'']) self
           else if nrows dt_X = 0 then
             throw (ValueError [Str ''Training frame cannot be empty'']) self
           else if ncols dt_y \<noteq> 1 then
             throw (ValueError [Str ''Target frame must have exactly one column'']) self
           else if nrows dt_X \<noteq> nrows dt_y then
             throw (ValueError [Str ''Target column must have the same number of rows '',
                                Str ''as the training frame'']) self
           else
             with_engine (\<lambda>e self.
               case dispatch_fit dt_X dt_y e of
                 (r, e') \<Rightarrow> (r, self\<lparr>dtft := Some e'\<rparr>)) self
       | _ \<Rightarrow> ret () self)) self))"

definition predict :: "predict_fn \<Rightarrow> PKArgs \<Rightarrow> py_Ftrl \<Rightarrow> pyobj result" where
  "predict dt_predict args self =
     (case arg args 0 of
        None \<Rightarrow> throw (ValueError [Str ''Frame to make predictions for is missing'']) self
      | Some a0 \<Rightarrow>
     attempt (to_frame a0) (\<lambda>dt_X_ptr self.
       case dt_X_ptr of
         None \<Rightarrow> ret PyNone self
       | Some dt_X \<Rightarrow>
           with_engine (\<lambda>e self.
             if \<not> dt_is_trained e then
               throw (ValueError [Str ''Cannot make any predictions, train or set '',
                                  Str ''the model first'']) self
             else
               let n = dt_get_dt_X_ncols e in
               if ncols dt_X \<noteq> n \<and> n \<noteq> 0 then
                 throw (ValueError
                   [Str ''Can only predict on a frame that has '', Num n,
                    Str '' column'', Str (plural n),
                    Str '', i.e. has the same number of features as '',
                    Str ''was used for model training'']) self
               else
                 (case dt_predict dt_X e of
                    (Inl ex, e') \<Rightarrow> (Inl ex, self\<lparr>dtft := Some e'\<rparr>)
                  | (Inr dt_p, e') \<Rightarrow> (Inr (PyFrame (Some dt_p)), self\<lparr>dtft := Some e'\<rparr>))) self) self)"

definition reset_feature_names :: "py_Ftrl \<Rightarrow> py_Ftrl" where
  "reset_feature_names self =
     (if feature_names self \<noteq> None then self\<lparr>feature_names := None\<rparr> else self)"

definition reset :: "py_Ftrl \<Rightarrow> unit result" where
  "reset self = upd_engine dt_reset (self\<lparr>reg_type := NONE\<rparr>)"

subsubsection \<open>Pickling\<close>

definition m_getstate :: "py_Ftrl \<Rightarrow> exn + pyobj" where
  "m_getstate self =
     bindE (get_params_tuple self) (\<lambda>ps.
     bindE (get_model self) (\<lambda>model.
     bindE (get_fi_tuple self) (\<lambda>fi.
     let py_reg_type = PyInt (int_of_RegType (reg_type self))
     in Inr (PyTuple [ps, model, fi, py_reg_type]))))"

definition m_dealloc :: "py_Ftrl \<Rightarrow> py_Ftrl" where
  "m_dealloc self = reset_feature_names (self\<lparr>labels := None, dtft := None\<rparr>)"

text \<open>
  \<^verbatim>\<open>__setstate__\<close> takes one required argument, the pickled state. It frees what
  the object holds, reads the precision flag at index \<open>7\<close> of the hyperparameter
  tuple, creates a new engine from default-constructed parameters, and then
  applies the four components of the state in order.
\<close>

definition m_setstate ::
  "FtrlParams \<Rightarrow> pyobj option \<Rightarrow> (SType \<Rightarrow> Column \<Rightarrow> bool) \<Rightarrow> pyobj \<Rightarrow> py_Ftrl \<Rightarrow> unit result" where
  "m_setstate dflt oob misread state self0 =
     (let self = m_dealloc self0 in
      attempt (to_otuple state) (\<lambda>pickle.
      attempt (tuple_at oob pickle 0) (\<lambda>pickle0.
      attempt (to_otuple pickle0) (\<lambda>ps.
      attempt (tuple_at oob ps 7) (\<lambda>p7.
      attempt (to_bool_strict p7) (\<lambda>double_precision self.
        and_then (attempt (tuple_at oob pickle 0) (set_params_tuple oob))
       (and_then (attempt (tuple_at oob pickle 1) (set_model misread))
       (and_then (attempt (tuple_at oob pickle 2) (\<lambda>pickle2.
                    if is_frame pickle2 then
                      attempt (to_frame pickle2) (\<lambda>fi_ptr'.
                        case fi_ptr' of
                          None \<Rightarrow> throw NullDereference
                        | Some dt_fi \<Rightarrow> upd_engine (dt_set_fi dt_fi))
                    else ret ()))
                 (attempt (tuple_at oob pickle 3) (\<lambda>pickle3.
                  attempt (to_int32 pickle3) (\<lambda>i self.
                    ret () (self\<lparr>reg_type := RegType_of_int i\<rparr>))))))
          (self\<lparr>dtft := Some (new_Ftrl double_precision dflt)\<rparr>)))))) self)"

subsection \<open>Sample objects\<close>

text \<open>
  Concrete inputs for the instances below: a set of hyperparameters with one bin
  and single precision, the object the constructor builds from them, two-column
  weight tables of one row, frames of a given shape, and the object after a weight
  table has been installed through the model setter.
\<close>

definition sample_params :: FtrlParams where
  "sample_params =
     \<lparr>alpha = 1 / 10, beta = 0, lambda1 = 0, lambda2 = 0, nbins = 1, nepochs = 1,
      interactions = False, double_precision = False\<rparr>"

definition sample_table :: "SType \<Rightarrow> real \<Rightarrow> DataTable" where
  "sample_table st n0 =
     \<lparr>nrows = 1, columns = [\<lparr>stype = st, cdata = [0]\<rparr>, \<lparr>stype = st, cdata = [n0]\<rparr>]\<rparr>"

definition sample_frame :: "nat \<Rightarrow> nat \<Rightarrow> DataTable" where
  "sample_frame r c =
     \<lparr>nrows = r, columns = replicate c \<lparr>stype = BOOL, cdata = replicate r 1\<rparr>\<rparr>"

definition sample_untrained :: py_Ftrl where
  "sample_untrained =
     \<lparr>dtft = Some (new_Ftrl False sample_params), labels = Some [PyStr ''target''],
      reg_type = NONE, feature_names = None\<rparr>"

definition sample_engine :: dt_Ftrl where
  "sample_engine = dt_set_model (sample_table FLOAT64 0) (new_Ftrl False sample_params)"

definition sample_trained :: py_Ftrl where
  "sample_trained = sample_untrained\<lparr>dtft := Some sample_engine\<rparr>"

text \<open>
  An answer for the negativity test read at the wrong width: it reports no
  negative value. The sample tables hold one row per column, with the values \<open>0\<close>
  and \<open>-1\<close>; stored as 8-byte doubles these are \<open>0x0000000000000000\<close> and
  \<open>0xBFF0000000000000\<close>, whose low four bytes are zero, so a read of one \<^verbatim>\<open>float\<close>
  from the start of such a buffer on a little-endian machine sees \<open>0.0\<close>.
\<close>

definition sample_misread :: "SType \<Rightarrow> Column \<Rightarrow> bool" where
  "sample_misread T col = False"

text \<open>An engine scorer for the instances: it hands the frame back and changes nothing.\<close>

definition sample_predict :: predict_fn where
  "sample_predict X e = (Inr X, e)"

definition sample_fit :: fit_fn where
  "sample_fit X y e = (Inr (), e)"

text \<open>The engine as a fit on a frame of two columns would leave it: two columns recorded.\<close>

definition sample_fitted_engine :: dt_Ftrl where
  "sample_fitted_engine = sample_engine\<lparr>X_ncols := 2, hashes := [11, 12]\<rparr>"

section \<open>Properties\<close>

lemmas plumbing =
  attempt_def and_then_def throw_def ret_def with_engine_def upd_engine_def
  ask_engine_def bindE_def

lemmas sample_defs =
  sample_params_def sample_table_def sample_frame_def sample_untrained_def
  sample_engine_def sample_trained_def sample_predict_def sample_fit_def
  sample_misread_def

subsection \<open>The sample objects are reachable\<close>

lemma m_init_sample:
  "m_init sample_params [] self = (Inr (), sample_untrained\<lparr>feature_names := feature_names self\<rparr>)"
  by (simp add: m_init_def arg_def is_none_or_undefined_def init_from_individual_def
      if_defined_def set_labels_def sample_untrained_def sample_params_def plumbing)

lemma set_model_sample:
  "set_model sample_misread (PyFrame (Some (sample_table FLOAT64 0))) sample_untrained
     = (Inr (), sample_trained)"
  by (simp add: set_model_def is_none_def ncols_def dt_get_nbins_def new_Ftrl_def
      dt_get_double_precision_def has_negatives_def dt_set_model_def sample_defs plumbing)

subsection \<open>Labels\<close>

text \<open>
  C7. \<^verbatim>\<open>set_labels([])\<close> leaves the label list \<^verbatim>\<open>["target"]\<close>; \<^verbatim>\<open>set_labels\<close> with a
  list of exactly one element throws a \<^verbatim>\<open>ValueError\<close> and leaves the object as it
  was; \<^verbatim>\<open>set_labels([a, b])\<close> leaves the two given labels, in order.
\<close>

theorem set_labels_cases:
  "set_labels (PyList []) self = (Inr (), self\<lparr>labels := Some [PyStr ''target'']\<rparr>)
   \<and> set_labels (PyList [x]) self =
       (Inl (ValueError [Str ''List of labels can not have one element'']), self)
   \<and> set_labels (PyList [a, b]) self = (Inr (), self\<lparr>labels := Some [a, b]\<rparr>)"
  by (simp add: set_labels_def attempt_def throw_def ret_def)

subsection \<open>Construction\<close>

text \<open>
  C3. The claim is that the constructor rejects \<open>nbins \<le> 0\<close> whichever way the
  hyperparameters are passed. It does not: with the \<^verbatim>\<open>params\<close> bundle, \<open>nbins\<close>
  goes through \<^verbatim>\<open>check_not_negative<double>\<close>, which an unsigned count always
  passes, so a bundle with \<open>alpha = 0.1\<close>, \<open>beta = lambda1 = lambda2 = 0\<close> and
  \<open>nbins = 0\<close> constructs a model with zero bins. The same values passed one by
  one are rejected by \<^verbatim>\<open>check_positive<uint64_t>\<close>.
\<close>

theorem init_bundle_accepts_zero_nbins:
  "m_init dflt
     [Some (PyNamedTuple
        [(''alpha'', PyFloat (1 / 10)), (''beta'', PyInt 0), (''lambda1'', PyInt 0),
         (''lambda2'', PyInt 0), (''nbins'', PyInt 0), (''nepochs'', PyInt 1),
         (''interactions'', PyBool False), (''double_precision'', PyBool False)])] self
   = (Inr (),
      self\<lparr>dtft := Some (new_Ftrl False
               (dflt\<lparr>alpha := 1 / 10, beta := 0, lambda1 := 0, lambda2 := 0, nbins := 0,
                     nepochs := 1, interactions := False, double_precision := False\<rparr>)),
            labels := Some [PyStr ''target''], reg_type := NONE\<rparr>)
   \<and> m_init dflt
     [None, None, Some (PyFloat (1 / 10)), Some (PyInt 0), Some (PyInt 0), Some (PyInt 0),
      Some (PyInt 0)] self
   = (Inl (NotPositive (PyInt 0)), self\<lparr>dtft := None\<rparr>)"
  by (simp add: m_init_def arg_def is_none_or_undefined_def init_from_params_def
      init_from_individual_def if_defined_def check_positive_double_def
      check_not_negative_double_def check_positive_uint64_def set_labels_def plumbing)

text \<open>
  The construction of section 8 of the specification, with the values passed one
  by one: \<open>alpha = 0.1\<close>, \<open>beta = lambda1 = lambda2 = 0\<close>, \<open>nbins = 100\<close>.
\<close>

lemma m_init_accepts_valid:
  "m_init dflt
     [None, None, Some (PyFloat (1 / 10)), Some (PyInt 0), Some (PyInt 0), Some (PyInt 0),
      Some (PyInt 100)] self
   = (Inr (),
      self\<lparr>dtft := Some (new_Ftrl (double_precision dflt)
               (dflt\<lparr>alpha := 1 / 10, beta := 0, lambda1 := 0, lambda2 := 0, nbins := 100\<rparr>)),
            labels := Some [PyStr ''target''], reg_type := NONE\<rparr>)"
  by (simp add: m_init_def arg_def is_none_or_undefined_def init_from_individual_def
      if_defined_def check_positive_double_def check_not_negative_double_def
      check_positive_uint64_def set_labels_def plumbing)

subsection \<open>The precision flag\<close>

text \<open>
  C4. The claim is that the \<^verbatim>\<open>double_precision\<close> setter called with \<open>b\<close> updates
  the \<^verbatim>\<open>double_precision\<close> flag and leaves \<^verbatim>\<open>interactions\<close> alone. The setter calls
  \<^verbatim>\<open>dtft->set_interactions\<close>: for every \<open>b\<close> it stores \<open>b\<close> in \<^verbatim>\<open>interactions\<close> and
  leaves \<^verbatim>\<open>double_precision\<close> as it was.
\<close>

theorem set_double_precision_sets_interactions:
  "set_double_precision (PyBool b) (self\<lparr>dtft := Some e\<rparr>)
     = (Inr (), self\<lparr>dtft := Some (e\<lparr>params := (params e)\<lparr>interactions := b\<rparr>\<rparr>)\<rparr>)
   \<and> dt_get_interactions (e\<lparr>params := (params e)\<lparr>interactions := b\<rparr>\<rparr>) = b
   \<and> dt_get_double_precision (e\<lparr>params := (params e)\<lparr>interactions := b\<rparr>\<rparr>)
       = dt_get_double_precision e"
  by (simp add: set_double_precision_def dt_set_interactions_def dt_get_interactions_def
      dt_get_double_precision_def plumbing)

subsection \<open>Pickling\<close>

lemma m_getstate_shape:
  "m_getstate (self\<lparr>dtft := Some e\<rparr>) =
     Inr (PyTuple
       [PyTuple [PyFloat (alpha (params e)), PyFloat (beta (params e)),
                 PyFloat (lambda1 (params e)), PyFloat (lambda2 (params e)),
                 PyInt (uint (nbins (params e))), PyInt (uint (nepochs (params e))),
                 PyBool (interactions (params e))],
        (if dt_is_trained e then PyFrame (model_ptr e) else PyNone),
        (if dt_is_trained e then PyTuple [PyFrame (fi_ptr e)] else PyNone),
        PyInt (int_of_RegType (reg_type self))])"
  by (simp add: m_getstate_def get_params_tuple_def get_alpha_def get_beta_def
      get_lambda1_def get_lambda2_def get_nbins_def get_nepochs_def get_interactions_def
      get_model_def get_fi_tuple_def dt_get_alpha_def dt_get_beta_def dt_get_lambda1_def
      dt_get_lambda2_def dt_get_nbins_def dt_get_nepochs_def dt_get_interactions_def
      dt_get_model_def dt_get_fi_def plumbing)

lemma set_params_tuple_seven:
  "length ps = 7 \<Longrightarrow> set_params_tuple oob (PyTuple ps) self =
     (Inl (ValueError [Str ''Tuple of FTRL parameters should have 8 elements, '',
                       Str ''got: '', Num 7]), self)"
  by (simp add: set_params_tuple_def plumbing)

lemma m_setstate_seven:
  "length ps = 7 \<Longrightarrow>
   isl (fst (m_setstate dflt oob misread (PyTuple [PyTuple ps, model, fi, rt]) fresh))"
  by (cases oob; cases "to_bool_strict (the oob)")
     (simp_all add: m_setstate_def tuple_at_def set_params_tuple_def plumbing)

text \<open>
  C1. The claim is that the exported state carries a hyperparameter tuple of eight
  scalars and that restoring it on a fresh model succeeds. For every model with an
  engine, \<^verbatim>\<open>__getstate__\<close> returns a 4-tuple whose first component has seven items
  (\<^verbatim>\<open>double_precision\<close> is left out); \<^verbatim>\<open>set_params_tuple\<close> refuses it for not having
  eight; and \<^verbatim>\<open>__setstate__\<close> on that state throws on every fresh object, whatever
  its read at index \<open>7\<close> of the seven-item tuple yields.
\<close>

theorem pickle_roundtrip_fails:
  "\<exists>ps model fi rt.
     m_getstate (self\<lparr>dtft := Some e\<rparr>) = Inr (PyTuple [PyTuple ps, model, fi, rt])
     \<and> length ps = 7
     \<and> set_params_tuple oob (PyTuple ps) fresh =
         (Inl (ValueError [Str ''Tuple of FTRL parameters should have 8 elements, '',
                           Str ''got: '', Num 7]), fresh)
     \<and> isl (fst (m_setstate dflt oob misread (PyTuple [PyTuple ps, model, fi, rt]) fresh))"
proof -
  let ?ps = "[PyFloat (alpha (params e)), PyFloat (beta (params e)),
              PyFloat (lambda1 (params e)), PyFloat (lambda2 (params e)),
              PyInt (uint (nbins (params e))), PyInt (uint (nepochs (params e))),
              PyBool (interactions (params e))]"
  let ?model = "if dt_is_trained e then PyFrame (model_ptr e) else PyNone"
  let ?fi = "if dt_is_trained e then PyTuple [PyFrame (fi_ptr e)] else PyNone"
  let ?rt = "PyInt (int_of_RegType (reg_type self))"
  have len: "length ?ps = 7" by simp
  have "m_getstate (self\<lparr>dtft := Some e\<rparr>) = Inr (PyTuple [PyTuple ?ps, ?model, ?fi, ?rt])"
    by (rule m_getstate_shape)
  moreover note len
  moreover have "set_params_tuple oob (PyTuple ?ps) fresh =
      (Inl (ValueError [Str ''Tuple of FTRL parameters should have 8 elements, '',
                        Str ''got: '', Num 7]), fresh)"
    by (rule set_params_tuple_seven [OF len])
  moreover have
    "isl (fst (m_setstate dflt oob misread (PyTuple [PyTuple ?ps, ?model, ?fi, ?rt]) fresh))"
    by (rule m_setstate_seven [OF len])
  ultimately show ?thesis
    by (intro exI conjI)
qed

subsection \<open>The model setter\<close>

text \<open>
  C2. The claim is that a weight table whose columns have the configured precision
  (\<open>FLOAT32\<close> when \<^verbatim>\<open>double_precision\<close> is false, \<open>FLOAT64\<close> when it is true) passes
  the type check of \<^verbatim>\<open>set_model\<close> and that any other is refused. The setter
  expects the opposite type: for every model and every table of the right shape,
  when the first column has the configured precision, \<^verbatim>\<open>set_model\<close> throws the
  type error for column \<open>0\<close> and leaves the object untouched.
\<close>

theorem set_model_dtype_inverted:
  assumes "nrows t = unat (dt_get_nbins e)"
    and "columns t = c # cs"
    and "even (length (c # cs))"
    and "stype c = (if dt_get_double_precision e then FLOAT64 else FLOAT32)"
  shows "set_model misread (PyFrame (Some t)) (self\<lparr>dtft := Some e\<rparr>) =
     (Inl (ValueError
        [Str ''Column '', Num 0, Str '' in the model frame should '',
         Str ''have a type of '',
         Ty (if dt_get_double_precision e then FLOAT32 else FLOAT64),
         Str '', whereas your '',
         Str ''frame has the following column type: '', Ty (stype c)]),
      self\<lparr>dtft := Some e\<rparr>)"
  using assms
  by (simp add: set_model_def is_none_def ncols_def even_iff_mod_2_eq_zero plumbing)

theorem set_model_dtype_inverted_witness:
  "dt_get_double_precision (new_Ftrl False sample_params) = False
   \<and> set_model sample_misread (PyFrame (Some (sample_table FLOAT32 0))) sample_untrained =
       (Inl (ValueError
          [Str ''Column '', Num 0, Str '' in the model frame should '',
           Str ''have a type of '', Ty FLOAT64, Str '', whereas your '',
           Str ''frame has the following column type: '', Ty FLOAT32]),
        sample_untrained)
   \<and> set_model sample_misread (PyFrame (Some (sample_table FLOAT64 0))) sample_untrained =
       (Inr (), sample_trained)"
proof -
  have dp: "dt_get_double_precision (new_Ftrl False sample_params) = False"
    by (simp add: dt_get_double_precision_def new_Ftrl_def sample_params_def)
  have "set_model sample_misread (PyFrame (Some (sample_table FLOAT32 0)))
          (sample_untrained\<lparr>dtft := Some (new_Ftrl False sample_params)\<rparr>) =
        (Inl (ValueError
          [Str ''Column '', Num 0, Str '' in the model frame should '',
           Str ''have a type of '', Ty FLOAT64, Str '', whereas your '',
           Str ''frame has the following column type: '', Ty FLOAT32]),
         sample_untrained\<lparr>dtft := Some (new_Ftrl False sample_params)\<rparr>)"
    using set_model_dtype_inverted
      [of "sample_table FLOAT32 0" "new_Ftrl False sample_params"
          "\<lparr>stype = FLOAT32, cdata = [0]\<rparr>" "[\<lparr>stype = FLOAT32, cdata = [0]\<rparr>]"
          sample_misread sample_untrained]
    by (simp add: dp) (simp add: sample_table_def dt_get_nbins_def new_Ftrl_def sample_params_def)
  moreover have "sample_untrained\<lparr>dtft := Some (new_Ftrl False sample_params)\<rparr> = sample_untrained"
    by (simp add: sample_untrained_def)
  ultimately show ?thesis
    using dp set_model_sample by simp
qed

text \<open>
  A table with an odd number of columns, or with a row count other than \<open>nbins\<close>,
  is refused before any column is looked at, and the object is left as it was.
\<close>

lemma set_model_rejects_shape:
  assumes "ncols t mod 2 \<noteq> 0 \<or> nrows t \<noteq> unat (dt_get_nbins e)"
  shows "\<exists>msg. set_model misread (PyFrame (Some t)) (self\<lparr>dtft := Some e\<rparr>)
                = (Inl (ValueError msg), self\<lparr>dtft := Some e\<rparr>)"
  using assms by (auto simp: set_model_def is_none_def plumbing)

text \<open>
  A column that passes the type test has the type the setter expects, and the
  negativity test the setter picks reads at the other width: on every column it
  is applied to, its answer is the answer of the read at the wrong width, and the
  values stored in the column play no part in it.
\<close>

lemma has_negatives_wrong_width:
  "stype c = (if d then FLOAT32 else FLOAT64) \<Longrightarrow>
   (if d then has_negatives misread FLOAT64 else has_negatives misread FLOAT32) c
     = misread (if d then FLOAT64 else FLOAT32) c"
  by (simp add: has_negatives_def)

text \<open>
  The loop throws at the latest when it reaches a column with an odd index for
  which the negativity test answers yes.
\<close>

lemma set_model_loop_negative:
  "dtft self \<noteq> None \<Longrightarrow> j < length cols \<Longrightarrow> odd (i + j) \<Longrightarrow> has_neg (cols ! j) \<Longrightarrow>
   \<exists>msg s. set_model_loop t st has_neg i cols self = (Inl (ValueError msg), s)"
proof (induction cols arbitrary: i j self)
  case Nil
  then show ?case by simp
next
  case (Cons col cols)
  show ?case
  proof (cases j)
    case 0
    with Cons.prems show ?thesis
      by (auto simp: Let_def odd_iff_mod_2_eq_one)
  next
    case (Suc j')
    obtain e where e: "dtft self = Some e"
      using Cons.prems(1) by auto
    let ?self' = "self\<lparr>dtft := Some (dt_set_model t e)\<rparr>"
    have "\<exists>msg s. set_model_loop t st has_neg (Suc i) cols ?self' = (Inl (ValueError msg), s)"
      using Cons.prems Suc by (intro Cons.IH [of ?self' j' "Suc i"]) auto
    then show ?thesis
      using e by (auto simp: Let_def upd_engine_def)
  qed
qed

text \<open>
  The loop runs to its end, installing the table, when every column has the
  expected type and the negativity test answers no on the columns with an odd
  index.
\<close>

lemma dt_set_model_twice: "dt_set_model t (dt_set_model t e) = dt_set_model t e"
  by (simp add: dt_set_model_def)

lemma set_model_loop_accepts:
  "dtft self = Some e \<Longrightarrow>
   \<forall>j < length cols. stype (cols ! j) = st \<and> (odd (i + j) \<longrightarrow> \<not> has_neg (cols ! j)) \<Longrightarrow>
   set_model_loop t st has_neg i cols self =
     (Inr (), if cols = [] then self else self\<lparr>dtft := Some (dt_set_model t e)\<rparr>)"
proof (induction cols arbitrary: i self e)
  case Nil
  then show ?case by simp
next
  case (Cons col cols)
  let ?self' = "self\<lparr>dtft := Some (dt_set_model t e)\<rparr>"
  have "stype ((col # cols) ! 0) = st \<and> (odd (i + 0) \<longrightarrow> \<not> has_neg ((col # cols) ! 0))"
    using Cons.prems(2) by blast
  then have head: "stype col = st" "i mod 2 \<noteq> 0 \<longrightarrow> \<not> has_neg col"
    by (simp_all add: even_iff_mod_2_eq_zero)
  have tail: "\<forall>j < length cols.
      stype (cols ! j) = st \<and> (odd (Suc i + j) \<longrightarrow> \<not> has_neg (cols ! j))"
  proof (intro allI impI)
    fix j assume "j < length cols"
    then have "Suc j < length (col # cols)" by simp
    with Cons.prems(2) have "stype ((col # cols) ! Suc j) = st
        \<and> (odd (i + Suc j) \<longrightarrow> \<not> has_neg ((col # cols) ! Suc j))"
      by blast
    then show "stype (cols ! j) = st \<and> (odd (Suc i + j) \<longrightarrow> \<not> has_neg (cols ! j))"
      by simp
  qed
  have "set_model_loop t st has_neg (Suc i) cols ?self' =
          (Inr (), if cols = [] then ?self'
                   else ?self'\<lparr>dtft := Some (dt_set_model t (dt_set_model t e))\<rparr>)"
    using tail by (intro Cons.IH) auto
  then show ?case
    using Cons.prems(1) head
    by (cases "i mod 2 = 0") (simp_all add: upd_engine_def dt_set_model_twice)
qed

text \<open>
  C8. The claim is that \<^verbatim>\<open>set_model\<close> fails on a table with an odd number of
  columns, or a row count other than \<open>nbins\<close>, or a negative value in an \<open>n\<close>
  column. The first two hold (\<open>set_model_rejects_shape\<close>). The third does not
  follow from the code: the only columns that pass the type test are stored at
  the width the negativity test does not read, so the test never sees the values
  of an \<open>n\<close> column as they were written. For every model and every table of the
  right shape whose columns have the expected type, when the read at the wrong
  width reports no negative value on the columns with an odd index, \<^verbatim>\<open>set_model\<close>
  returns normally and installs the table, whatever values the table holds.
\<close>

theorem set_model_negative_not_seen:
  assumes "nrows t = unat (dt_get_nbins e)"
    and "even (ncols t)"
    and "columns t \<noteq> []"
    and "\<forall>j < ncols t.
           stype (columns t ! j) = (if dt_get_double_precision e then FLOAT32 else FLOAT64)"
    and "\<forall>j < ncols t. odd j \<longrightarrow>
           \<not> misread (if dt_get_double_precision e then FLOAT64 else FLOAT32) (columns t ! j)"
  shows "set_model misread (PyFrame (Some t)) (self\<lparr>dtft := Some e\<rparr>) =
           (Inr (), self\<lparr>dtft := Some (dt_set_model t e)\<rparr>)"
proof -
  let ?dp = "dt_get_double_precision e"
  let ?st = "if ?dp then FLOAT32 else FLOAT64"
  let ?has_neg = "if ?dp then has_negatives misread FLOAT64 else has_negatives misread FLOAT32"
  have "\<forall>j < length (columns t).
          stype (columns t ! j) = ?st \<and> (odd (0 + j) \<longrightarrow> \<not> ?has_neg (columns t ! j))"
  proof (intro allI impI)
    fix j assume j: "j < length (columns t)"
    then have st: "stype (columns t ! j) = ?st"
      using assms(4) by (simp add: ncols_def)
    have "odd j \<longrightarrow> \<not> misread (if ?dp then FLOAT64 else FLOAT32) (columns t ! j)"
      using assms(5) j by (simp add: ncols_def)
    then have "odd j \<longrightarrow> \<not> ?has_neg (columns t ! j)"
      using has_negatives_wrong_width [OF st, of misread] by simp
    with st show "stype (columns t ! j) = ?st \<and> (odd (0 + j) \<longrightarrow> \<not> ?has_neg (columns t ! j))"
      by simp
  qed
  then have "set_model_loop t ?st ?has_neg 0 (columns t) (self\<lparr>dtft := Some e\<rparr>) =
             (Inr (), self\<lparr>dtft := Some (dt_set_model t e)\<rparr>)"
    using assms(3) set_model_loop_accepts [of "self\<lparr>dtft := Some e\<rparr>" e "columns t" ?st 0 ?has_neg t]
    by simp
  then show ?thesis
    using assms(1,2)
    by (simp add: set_model_def is_none_def even_iff_mod_2_eq_zero attempt_def
        with_engine_def Let_def)
qed

text \<open>
  The instance: a single-precision model with one bin, and a table of one row
  with two \<open>FLOAT64\<close> columns, \<open>z = [0]\<close> and \<open>n = [-1]\<close>. The \<open>n\<close> column holds a
  negative value, and the table is installed.
\<close>

theorem set_model_negative_not_seen_witness:
  "(\<exists>x \<in> set (cdata (columns (sample_table FLOAT64 (- 1)) ! 1)). x < 0)
   \<and> set_model sample_misread (PyFrame (Some (sample_table FLOAT64 (- 1)))) sample_untrained =
       (Inr (), sample_untrained\<lparr>dtft := Some (dt_set_model (sample_table FLOAT64 (- 1))
                                          (new_Ftrl False sample_params))\<rparr>)
   \<and> dt_is_trained (dt_set_model (sample_table FLOAT64 (- 1)) (new_Ftrl False sample_params))"
proof -
  let ?t = "sample_table FLOAT64 (- 1)"
  let ?e = "new_Ftrl False sample_params"
  have u: "sample_untrained\<lparr>dtft := Some ?e\<rparr> = sample_untrained"
    by (simp add: sample_untrained_def)
  have h0: "\<exists>x \<in> set (cdata (columns ?t ! 1)). x < 0"
    by (simp add: sample_table_def)
  have h1: "nrows ?t = unat (dt_get_nbins ?e)"
    by (simp add: sample_table_def dt_get_nbins_def new_Ftrl_def sample_params_def)
  have h2: "even (ncols ?t)" and h3: "columns ?t \<noteq> []"
    by (simp_all add: ncols_def sample_table_def)
  have h4: "\<forall>j < ncols ?t.
      stype (columns ?t ! j) = (if dt_get_double_precision ?e then FLOAT32 else FLOAT64)"
    by (simp add: ncols_def sample_table_def dt_get_double_precision_def new_Ftrl_def
        sample_params_def less_Suc_eq numeral_2_eq_2)
  have h5: "\<forall>j < ncols ?t. odd j \<longrightarrow>
      \<not> sample_misread (if dt_get_double_precision ?e then FLOAT64 else FLOAT32) (columns ?t ! j)"
    by (simp add: sample_misread_def)
  have "set_model sample_misread (PyFrame (Some ?t)) (sample_untrained\<lparr>dtft := Some ?e\<rparr>) =
          (Inr (), sample_untrained\<lparr>dtft := Some (dt_set_model ?t ?e)\<rparr>)"
    by (rule set_model_negative_not_seen
          [where misread = sample_misread and t = ?t and e = ?e and self = sample_untrained,
           OF h1 h2 h3 h4 h5])
  moreover have "dt_is_trained (dt_set_model ?t ?e)"
    by (simp add: dt_is_trained_def dt_set_model_def)
  ultimately show ?thesis
    using h0 by (simp add: u)
qed

text \<open>
  When the read at the wrong width does report a negative value on column \<open>1\<close>,
  the setter throws, but only after the pass over column \<open>0\<close> has installed the
  table: the call that installs it stands inside the loop.
\<close>

lemma set_model_installs_before_rejecting:
  assumes "misread FLOAT32 \<lparr>stype = FLOAT64, cdata = [- 1]\<rparr>"
  shows "set_model misread (PyFrame (Some (sample_table FLOAT64 (- 1)))) sample_untrained =
     (Inl (ValueError [Str ''Column '', Num 1, Str '' cannot have negative values'']),
      sample_untrained\<lparr>dtft := Some (dt_set_model (sample_table FLOAT64 (- 1))
                                        (new_Ftrl False sample_params))\<rparr>)"
  using assms
  by (simp add: set_model_def is_none_def ncols_def dt_get_nbins_def new_Ftrl_def
      dt_get_double_precision_def has_negatives_def dt_set_model_def sample_defs plumbing)

subsection \<open>\<^verbatim>\<open>fit\<close> and \<^verbatim>\<open>predict\<close>\<close>

text \<open>
  C6. For all frames \<open>X\<close> and \<open>y\<close>, \<^verbatim>\<open>fit\<close> throws a \<^verbatim>\<open>ValueError\<close> when \<open>X\<close> has no
  columns, \<open>X\<close> has no rows, \<open>y\<close> does not have exactly one column, or the row
  counts of \<open>X\<close> and \<open>y\<close> differ; and the object it leaves behind is the object it
  was called on.
\<close>

theorem fit_rejects_bad_shapes:
  assumes "ncols X = 0 \<or> nrows X = 0 \<or> ncols y \<noteq> 1 \<or> nrows X \<noteq> nrows y"
  shows "\<exists>msg. fit dispatch_fit [Some (PyFrame (Some X)), Some (PyFrame (Some y))] self
                = (Inl (ValueError msg), self)"
  using assms by (auto simp: fit_def arg_def plumbing)

theorem fit_rejects_bad_shapes_witness:
  "ncols (sample_frame 4 0) = 0
   \<and> (\<exists>msg. fit sample_fit [Some (PyFrame (Some (sample_frame 4 0))),
                             Some (PyFrame (Some (sample_frame 4 1)))] sample_trained
             = (Inl (ValueError msg), sample_trained))
   \<and> nrows (sample_frame 0 2) = 0
   \<and> (\<exists>msg. fit sample_fit [Some (PyFrame (Some (sample_frame 0 2))),
                             Some (PyFrame (Some (sample_frame 0 1)))] sample_trained
             = (Inl (ValueError msg), sample_trained))
   \<and> ncols (sample_frame 4 2) \<noteq> 1
   \<and> (\<exists>msg. fit sample_fit [Some (PyFrame (Some (sample_frame 4 2))),
                             Some (PyFrame (Some (sample_frame 4 2)))] sample_trained
             = (Inl (ValueError msg), sample_trained))
   \<and> nrows (sample_frame 4 2) \<noteq> nrows (sample_frame 3 1)
   \<and> (\<exists>msg. fit sample_fit [Some (PyFrame (Some (sample_frame 4 2))),
                             Some (PyFrame (Some (sample_frame 3 1)))] sample_trained
             = (Inl (ValueError msg), sample_trained))"
proof -
  have h1: "ncols (sample_frame 4 0) = 0"
    and h2: "nrows (sample_frame 0 2) = 0"
    and h3: "ncols (sample_frame 4 2) \<noteq> 1"
    and h4: "nrows (sample_frame 4 2) \<noteq> nrows (sample_frame 3 1)"
    by (simp_all add: ncols_def sample_frame_def)
  show ?thesis
    using h1 h2 h3 h4
      fit_rejects_bad_shapes [of "sample_frame 4 0" "sample_frame 4 1" sample_fit sample_trained]
      fit_rejects_bad_shapes [of "sample_frame 0 2" "sample_frame 0 1" sample_fit sample_trained]
      fit_rejects_bad_shapes [of "sample_frame 4 2" "sample_frame 4 2" sample_fit sample_trained]
      fit_rejects_bad_shapes [of "sample_frame 4 2" "sample_frame 3 1" sample_fit sample_trained]
    by simp
qed

text \<open>
  C5, as the code has it. For every frame \<open>X\<close>: \<^verbatim>\<open>predict\<close> throws a \<^verbatim>\<open>ValueError\<close>
  when the model is untrained; it throws a \<^verbatim>\<open>ValueError\<close> when the model is trained,
  the column count recorded from training is not zero and \<open>X\<close> has a different
  column count; and when the model is trained and the recorded count is zero,
  the column check is skipped and \<open>X\<close> goes to the engine's scorer, whose outcome
  \<^verbatim>\<open>predict\<close> returns. In the two throwing cases the object is left as it was.
\<close>

theorem predict_checks:
  "(\<not> dt_is_trained e \<longrightarrow>
      predict dt_predict [Some (PyFrame (Some X))] (self\<lparr>dtft := Some e\<rparr>) =
        (Inl (ValueError [Str ''Cannot make any predictions, train or set '',
                          Str ''the model first'']), self\<lparr>dtft := Some e\<rparr>))
   \<and> (dt_is_trained e \<and> dt_get_dt_X_ncols e \<noteq> 0 \<and> ncols X \<noteq> dt_get_dt_X_ncols e \<longrightarrow>
      predict dt_predict [Some (PyFrame (Some X))] (self\<lparr>dtft := Some e\<rparr>) =
        (Inl (ValueError
           [Str ''Can only predict on a frame that has '', Num (dt_get_dt_X_ncols e),
            Str '' column'', Str (plural (dt_get_dt_X_ncols e)),
            Str '', i.e. has the same number of features as '',
            Str ''was used for model training'']), self\<lparr>dtft := Some e\<rparr>))
   \<and> (dt_is_trained e \<and> dt_get_dt_X_ncols e = 0 \<longrightarrow>
      predict dt_predict [Some (PyFrame (Some X))] (self\<lparr>dtft := Some e\<rparr>) =
        (case dt_predict X e of
           (Inl ex, e') \<Rightarrow> (Inl ex, self\<lparr>dtft := Some e'\<rparr>)
         | (Inr dt_p, e') \<Rightarrow> (Inr (PyFrame (Some dt_p)), self\<lparr>dtft := Some e'\<rparr>)))"
  by (simp add: predict_def arg_def plumbing Let_def split: prod.splits sum.splits)

theorem predict_checks_witness:
  "\<not> dt_is_trained (new_Ftrl False sample_params)
   \<and> predict sample_predict [Some (PyFrame (Some (sample_frame 4 3)))] sample_untrained =
       (Inl (ValueError [Str ''Cannot make any predictions, train or set '',
                         Str ''the model first'']), sample_untrained)
   \<and> dt_is_trained sample_fitted_engine
   \<and> dt_get_dt_X_ncols sample_fitted_engine \<noteq> 0
   \<and> ncols (sample_frame 4 3) \<noteq> dt_get_dt_X_ncols sample_fitted_engine
   \<and> predict sample_predict [Some (PyFrame (Some (sample_frame 4 3)))]
         (sample_untrained\<lparr>dtft := Some sample_fitted_engine\<rparr>) =
       (Inl (ValueError
          [Str ''Can only predict on a frame that has '', Num 2,
           Str '' column'', Str ''s'',
           Str '', i.e. has the same number of features as '',
           Str ''was used for model training'']),
        sample_untrained\<lparr>dtft := Some sample_fitted_engine\<rparr>)
   \<and> dt_is_trained sample_engine
   \<and> dt_get_dt_X_ncols sample_engine = 0
   \<and> predict sample_predict [Some (PyFrame (Some (sample_frame 4 3)))] sample_trained =
       (Inr (PyFrame (Some (sample_frame 4 3))), sample_trained)"
proof -
  have u: "sample_untrained\<lparr>dtft := Some (new_Ftrl False sample_params)\<rparr> = sample_untrained"
    by (simp add: sample_untrained_def)
  have h1: "\<not> dt_is_trained (new_Ftrl False sample_params)"
    by (simp add: dt_is_trained_def new_Ftrl_def)
  have h2: "dt_is_trained sample_fitted_engine"
    and h3: "dt_get_dt_X_ncols sample_fitted_engine = 2"
    and h4: "ncols (sample_frame 4 3) = 3"
    and h5: "dt_is_trained sample_engine"
    and h6: "dt_get_dt_X_ncols sample_engine = 0"
    by (simp_all add: dt_is_trained_def dt_get_dt_X_ncols_def sample_fitted_engine_def
        sample_engine_def dt_set_model_def new_Ftrl_def ncols_def sample_frame_def)
  show ?thesis
    using h1 h2 h3 h4 h5 h6
      predict_checks [of "new_Ftrl False sample_params" sample_predict "sample_frame 4 3"
                         sample_untrained]
      predict_checks [of sample_fitted_engine sample_predict "sample_frame 4 3"
                         sample_untrained]
      predict_checks [of sample_engine sample_predict "sample_frame 4 3" sample_untrained]
    by (simp add: u plural_def sample_predict_def sample_trained_def)
qed

text \<open>
  The claim as stated fails on a model whose weights were installed through the
  model setter: it is trained, its recorded column count is zero, the frame has
  three columns, and \<^verbatim>\<open>predict\<close> throws nothing of its own: whatever the engine's
  scorer does is the outcome, and with a scorer that succeeds a frame comes back.
\<close>

theorem predict_zero_ncols_counterexample:
  "dt_is_trained sample_engine
   \<and> dt_get_dt_X_ncols sample_engine = 0
   \<and> ncols (sample_frame 4 3) \<noteq> dt_get_dt_X_ncols sample_engine
   \<and> predict sample_predict [Some (PyFrame (Some (sample_frame 4 3)))] sample_trained
       = (Inr (PyFrame (Some (sample_frame 4 3))), sample_trained)
   \<and> (\<forall>dt_predict.
        predict dt_predict [Some (PyFrame (Some (sample_frame 4 3)))] sample_trained =
          (case dt_predict (sample_frame 4 3) sample_engine of
             (Inl ex, e') \<Rightarrow> (Inl ex, sample_trained\<lparr>dtft := Some e'\<rparr>)
           | (Inr dt_p, e') \<Rightarrow> (Inr (PyFrame (Some dt_p)), sample_trained\<lparr>dtft := Some e'\<rparr>)))"
  by (simp add: predict_def arg_def plumbing Let_def dt_is_trained_def dt_set_model_def
      new_Ftrl_def dt_get_dt_X_ncols_def ncols_def sample_defs split: prod.splits sum.splits)

subsection \<open>\<^verbatim>\<open>nbins\<close> and the read-only accessors\<close>

text \<open>
  C9. On every trained model and for every value \<open>v\<close>, the \<^verbatim>\<open>nbins\<close> setter throws
  the \<^verbatim>\<open>ValueError\<close> that tells the caller to reset the model or create a new one,
  and leaves the object, \<open>nbins\<close> included, as it was. On an untrained model, a
  value that converts to a positive count \<open>n\<close> is accepted and stored as \<open>nbins\<close>.
\<close>

theorem set_nbins_trained:
  "(dt_is_trained e \<longrightarrow>
      set_nbins v (self\<lparr>dtft := Some e\<rparr>) =
        (Inl (ValueError [Str ''Cannot set `nbins` for a trained model, '',
                          Str ''reset this model or create a new one'']),
         self\<lparr>dtft := Some e\<rparr>))
   \<and> (\<not> dt_is_trained e \<and> to_size_t v = Inr n \<and> 0 < n \<longrightarrow>
      set_nbins v (self\<lparr>dtft := Some e\<rparr>) =
        (Inr (), self\<lparr>dtft := Some (e\<lparr>params := (params e)\<lparr>nbins := n\<rparr>\<rparr>)\<rparr>))"
  by (simp add: set_nbins_def check_positive_uint64_def dt_set_nbins_def plumbing)

theorem set_nbins_trained_witness:
  "dt_is_trained sample_engine
   \<and> set_nbins (PyInt 5) sample_trained =
       (Inl (ValueError [Str ''Cannot set `nbins` for a trained model, '',
                         Str ''reset this model or create a new one'']), sample_trained)
   \<and> \<not> dt_is_trained (new_Ftrl False sample_params)
   \<and> to_size_t (PyInt 100) = Inr 100
   \<and> (0 :: 64 word) < 100
   \<and> set_nbins (PyInt 100) sample_untrained =
       (Inr (), sample_untrained\<lparr>dtft := Some (new_Ftrl False (sample_params\<lparr>nbins := 100\<rparr>))\<rparr>)"
proof -
  have u: "sample_untrained\<lparr>dtft := Some (new_Ftrl False sample_params)\<rparr> = sample_untrained"
    by (simp add: sample_untrained_def)
  have h1: "dt_is_trained sample_engine"
    and h2: "\<not> dt_is_trained (new_Ftrl False sample_params)"
    by (simp_all add: dt_is_trained_def sample_engine_def dt_set_model_def new_Ftrl_def)
  have h3: "to_size_t (PyInt 100) = Inr 100" and h4: "(0 :: 64 word) < 100"
    by simp_all
  have p: "(new_Ftrl False sample_params)\<lparr>params := sample_params\<lparr>nbins := 100\<rparr>\<rparr>
             = new_Ftrl False (sample_params\<lparr>nbins := 100\<rparr>)"
    by (simp add: new_Ftrl_def)
  show ?thesis
    using h1 h2 h3 h4
      set_nbins_trained [of sample_engine "PyInt 5" sample_untrained]
      set_nbins_trained [of "new_Ftrl False sample_params" "PyInt 100" sample_untrained 100]
    by (simp add: u sample_trained_def) (simp add: new_Ftrl_def)
qed

text \<open>
  C10. On an untrained model the accessors of the weight table, of the feature
  importances and of the column-name hashes each return \<^verbatim>\<open>None\<close> and throw
  nothing; on a trained model each returns an object that is not \<^verbatim>\<open>None\<close>.
\<close>

theorem accessors_none_iff_untrained:
  "(\<not> dt_is_trained e \<longrightarrow>
      get_model (self\<lparr>dtft := Some e\<rparr>) = Inr PyNone
      \<and> get_fi (self\<lparr>dtft := Some e\<rparr>) = Inr PyNone
      \<and> get_colname_hashes (self\<lparr>dtft := Some e\<rparr>) = Inr PyNone)
   \<and> (dt_is_trained e \<longrightarrow>
      (\<exists>v. get_model (self\<lparr>dtft := Some e\<rparr>) = Inr v \<and> v \<noteq> PyNone)
      \<and> (\<exists>v. get_fi (self\<lparr>dtft := Some e\<rparr>) = Inr v \<and> v \<noteq> PyNone)
      \<and> (\<exists>v. get_colname_hashes (self\<lparr>dtft := Some e\<rparr>) = Inr v \<and> v \<noteq> PyNone))"
  by (simp add: get_model_def get_fi_def get_colname_hashes_def plumbing Let_def)

theorem accessors_none_iff_untrained_witness:
  "\<not> dt_is_trained (new_Ftrl False sample_params)
   \<and> get_model sample_untrained = Inr PyNone
   \<and> get_fi sample_untrained = Inr PyNone
   \<and> get_colname_hashes sample_untrained = Inr PyNone
   \<and> dt_is_trained sample_fitted_engine
   \<and> (\<exists>v. get_model (sample_untrained\<lparr>dtft := Some sample_fitted_engine\<rparr>) = Inr v \<and> v \<noteq> PyNone)
   \<and> (\<exists>v. get_fi (sample_untrained\<lparr>dtft := Some sample_fitted_engine\<rparr>) = Inr v \<and> v \<noteq> PyNone)
   \<and> (\<exists>v. get_colname_hashes (sample_untrained\<lparr>dtft := Some sample_fitted_engine\<rparr>) = Inr v
          \<and> v \<noteq> PyNone)"
proof -
  have u: "sample_untrained\<lparr>dtft := Some (new_Ftrl False sample_params)\<rparr> = sample_untrained"
    by (simp add: sample_untrained_def)
  have h1: "\<not> dt_is_trained (new_Ftrl False sample_params)"
    and h2: "dt_is_trained sample_fitted_engine"
    by (simp_all add: dt_is_trained_def sample_fitted_engine_def sample_engine_def
        dt_set_model_def new_Ftrl_def)
  show ?thesis
    using h1 h2
      accessors_none_iff_untrained [of "new_Ftrl False sample_params" sample_untrained]
      accessors_none_iff_untrained [of sample_fitted_engine sample_untrained]
    by (simp add: u)
qed

end
